theory Spec2Isabelle
  imports Main "HOL-Library.AList"
begin

section \<open>BlogController: request handlers of the admin Blog entity\<close>

text \<open>
  The source is \<^verbatim>\<open>src/controller/admin/BlogController.js\<close>: twelve exported
  \<^verbatim>\<open>async\<close> handlers \<^verbatim>\<open>(req, res)\<close>. Each one reads the request, calls collaborators
  (the validation service, the \<^verbatim>\<open>Blog\<close> model constructor, \<^verbatim>\<open>ObjectId.isValid\<close> and the
  document-access service \<^verbatim>\<open>dbService\<close>) and calls a response helper of \<^verbatim>\<open>res\<close>, all of it
  inside one \<^verbatim>\<open>try\<close>/\<^verbatim>\<open>catch\<close>.

  The embedding keeps that shape. A handler is a function of the collaborators and of
  the request; its value is the list of calls it made, in order, together with the way
  it ended. Collaborators are a parameter: a function that answers each call with a
  returned value or with a thrown error. (No handler makes the same call twice, so a
  function of the call says all that a run can observe.) An \<^verbatim>\<open>await\<close> is the call
  itself: a rejected promise is a thrown error.
\<close>

subsection \<open>JavaScript values\<close>

text \<open>
  Request bodies are parsed JSON, so values are the JSON values and \<^verbatim>\<open>undefined\<close>.
  Numbers are integers here (the only number the handlers compare is \<^verbatim>\<open>11000\<close>).
  An object is the list of its own properties in property order.
\<close>

datatype jsval =
    JUndefined
  | JNull
  | JBool bool
  | JNum int
  | JStr string
  | JArr "jsval list"
  | JObj "(string \<times> jsval) list"

text \<open>\<^verbatim>\<open>!v\<close> is \<open>\<not> truthy v\<close>.\<close>

fun truthy :: "jsval \<Rightarrow> bool" where
  "truthy JUndefined = False"
| "truthy JNull = False"
| "truthy (JBool b) = b"
| "truthy (JNum n) = (n \<noteq> 0)"
| "truthy (JStr s) = (s \<noteq> [])"
| "truthy (JArr xs) = True"
| "truthy (JObj kvs) = True"

text \<open>\<^verbatim>\<open>typeof v === 'object' && v !== null\<close>: arrays are objects too.\<close>

fun is_object :: "jsval \<Rightarrow> bool" where
  "is_object (JArr xs) = True"
| "is_object (JObj kvs) = True"
| "is_object v = False"

text \<open>\<^verbatim>\<open>Array.isArray(v)\<close> and, for an array, \<^verbatim>\<open>v.length\<close>.\<close>

fun isArray :: "jsval \<Rightarrow> bool" where
  "isArray (JArr xs) = True"
| "isArray v = False"

fun arrayLength :: "jsval \<Rightarrow> nat" where
  "arrayLength (JArr xs) = length xs"
| "arrayLength v = 0"

text \<open>
  The property read \<^verbatim>\<open>v.k\<close> on a value that is neither \<^verbatim>\<open>undefined\<close> nor \<^verbatim>\<open>null\<close>.
  A missing property reads as \<^verbatim>\<open>undefined\<close>; arrays and strings have \<^verbatim>\<open>length\<close>.
  (The handlers read only the names \<^verbatim>\<open>query\<close>, \<^verbatim>\<open>options\<close>, \<^verbatim>\<open>isCountOnly\<close>,
  \<^verbatim>\<open>where\<close>, \<^verbatim>\<open>ids\<close>, \<^verbatim>\<open>data\<close>, \<^verbatim>\<open>filter\<close>, \<^verbatim>\<open>isValid\<close>, \<^verbatim>\<open>message\<close> and \<^verbatim>\<open>length\<close>, none of
  which is inherited from a prototype.)
\<close>

fun read_prop :: "jsval \<Rightarrow> string \<Rightarrow> jsval" where
  "read_prop (JObj kvs) k = (case map_of kvs k of Some v \<Rightarrow> v | None \<Rightarrow> JUndefined)"
| "read_prop (JArr xs) k = (if k = ''length'' then JNum (int (length xs)) else JUndefined)"
| "read_prop (JStr s) k = (if k = ''length'' then JNum (int (length s)) else JUndefined)"
| "read_prop v k = JUndefined"

text \<open>Decimal digits of an index, the property name of an array element.\<close>

fun decimal :: "nat \<Rightarrow> string" where
  "decimal n =
     (if n < 10 then [''0123456789'' ! n]
      else decimal (n div 10) @ [''0123456789'' ! (n mod 10)])"

declare decimal.simps [simp del]

text \<open>
  Object spread \<^verbatim>\<open>{ ...v }\<close>: the own enumerable properties of \<open>v\<close>. Nothing for
  \<^verbatim>\<open>undefined\<close>, \<^verbatim>\<open>null\<close>, booleans and numbers; the indexed elements for an array and
  the indexed characters for a string.
\<close>

fun spread :: "jsval \<Rightarrow> (string \<times> jsval) list" where
  "spread (JObj kvs) = kvs"
| "spread (JArr xs) = zip (map decimal [0..<length xs]) xs"
| "spread (JStr s) = zip (map decimal [0..<length s]) (map (\<lambda>c. JStr [c]) s)"
| "spread v = []"

subsection \<open>Requests, thrown errors, collaborator calls, responses\<close>

text \<open>
  Of the request the handlers read \<^verbatim>\<open>req.body\<close>, \<^verbatim>\<open>req.params.id\<close> and \<^verbatim>\<open>req.user.id\<close>.
  The body may be any value, \<^verbatim>\<open>undefined\<close> included (the source itself writes
  \<^verbatim>\<open>req.body || {}\<close> and \<^verbatim>\<open>req.body && ...\<close>). \<^verbatim>\<open>req.params\<close> is the router's object and
  \<^verbatim>\<open>req.user\<close> the authenticated user, so the record holds the two values read from
  them; a missing path id is \<open>JUndefined\<close>.
\<close>

record request =
  body :: jsval
  params_id :: jsval
  user_id :: jsval

text \<open>
  A thrown value is any value: the \<^verbatim>\<open>catch\<close> blocks receive whatever a collaborator or
  the language threw and read its \<^verbatim>\<open>name\<close>, \<^verbatim>\<open>code\<close> and \<^verbatim>\<open>message\<close>. On a thrown
  \<^verbatim>\<open>undefined\<close> or \<^verbatim>\<open>null\<close> these reads throw themselves. An \<^verbatim>\<open>Error\<close> instance is the
  object of the three properties that are read from it (\<^verbatim>\<open>name\<close> is inherited in
  JavaScript and reads all the same).
\<close>

definition errorObject :: "jsval \<Rightarrow> jsval \<Rightarrow> jsval \<Rightarrow> jsval" where
  "errorObject n c m = JObj [(''name'', n), (''code'', c), (''message'', m)]"

text \<open>
  The \<^verbatim>\<open>TypeError\<close> the language itself throws, which has no \<^verbatim>\<open>code\<close>; the texts are
  those of Node (V8).
\<close>

definition typeError :: "string \<Rightarrow> jsval" where
  "typeError m = JObj [(''name'', JStr ''TypeError''), (''message'', JStr m)]"

datatype schema_keys = SchemaKeys | UpdateSchemaKeys | FindFilterKeys

text \<open>
  The calls to collaborators. The constant first argument \<^verbatim>\<open>Blog\<close> of every
  \<^verbatim>\<open>dbService\<close> operation is left out; the flag of \<open>ValidateFilterWithJoi\<close> tells whether
  \<^verbatim>\<open>Blog.schema.obj\<close> was passed as third argument.
\<close>

datatype call =
    ValidateParamsWithJoi jsval schema_keys
  | ValidateFilterWithJoi jsval schema_keys bool
  | NewBlog jsval
  | ObjectIdIsValid jsval
  | CreateDocument jsval
  | CountDocument jsval
  | GetAllDocuments jsval jsval
  | BulkUpdate jsval jsval
  | BulkInsert jsval
  | DeleteMany jsval
  | FindOneAndUpdateDocument jsval jsval jsval
  | GetSingleDocument jsval jsval
  | FindOneAndDeleteDocument jsval

text \<open>
  The response helpers. \<open>Success d\<close> is \<^verbatim>\<open>res.success({ data: d })\<close>,
  \<open>InternalServerError m\<close> is \<^verbatim>\<open>res.internalServerError({ message: m })\<close>. The message of
  a validation error is a literal or a template literal \<^verbatim>\<open>`prefix${v}`\<close>, kept as
  its prefix and the interpolated value.
\<close>

datatype res_message = Lit string | Template string jsval

datatype response =
    Success jsval
  | ValidationError res_message
  | InternalServerError jsval
  | RecordNotFound
  | BadRequest

datatype event = Call call | Respond response

type_synonym collaborators = "call \<Rightarrow> jsval + jsval"

text \<open>
  A run: the events so far and either the thrown value (\<open>Inl\<close>) or the returned one.
\<close>

type_synonym 'a run = "event list \<times> (jsval + 'a)"

definition ret :: "'a \<Rightarrow> 'a run" where
  "ret x = ([], Inr x)"

definition throw :: "jsval \<Rightarrow> 'a run" where
  "throw e = ([], Inl e)"

definition thenDo :: "'a run \<Rightarrow> ('a \<Rightarrow> 'b run) \<Rightarrow> 'b run" where
  "thenDo m f =
     (case m of
        (t, Inl e) \<Rightarrow> (t, Inl e)
      | (t, Inr x) \<Rightarrow> (case f x of (t', r) \<Rightarrow> (t @ t', r)))"

definition tryCatch :: "'a run \<Rightarrow> (jsval \<Rightarrow> 'a run) \<Rightarrow> 'a run" where
  "tryCatch m h =
     (case m of
        (t, Inl e) \<Rightarrow> (case h e of (t', r) \<Rightarrow> (t @ t', r))
      | (t, Inr x) \<Rightarrow> (t, Inr x))"

definition call :: "collaborators \<Rightarrow> call \<Rightarrow> jsval run" where
  "call env c = ([Call c], env c)"

definition respond :: "response \<Rightarrow> unit run" where
  "respond r = ([Respond r], Inr ())"

text \<open>The property read \<^verbatim>\<open>v.k\<close>, which throws on \<^verbatim>\<open>undefined\<close> and \<^verbatim>\<open>null\<close>.\<close>

definition get_prop :: "jsval \<Rightarrow> string \<Rightarrow> jsval run" where
  "get_prop v k =
     (if v = JUndefined then
        throw (typeError (''Cannot read properties of undefined (reading ''
                          @ [CHR 0x27] @ k @ [CHR 0x27] @ '')''))
      else if v = JNull then
        throw (typeError (''Cannot read properties of null (reading ''
                          @ [CHR 0x27] @ k @ [CHR 0x27] @ '')''))
      else ret (read_prop v k))"

text \<open>
  \<^verbatim>\<open>delete v[k]\<close> for a name \<open>k\<close> that is not an index: throws on \<^verbatim>\<open>undefined\<close> and
  \<^verbatim>\<open>null\<close>, removes the property of an object, leaves every other value as it is.
\<close>

fun without_prop :: "jsval \<Rightarrow> string \<Rightarrow> jsval" where
  "without_prop (JObj kvs) k = JObj (AList.delete k kvs)"
| "without_prop v k = v"

definition delete_prop :: "jsval \<Rightarrow> string \<Rightarrow> jsval run" where
  "delete_prop v k =
     (if v = JUndefined \<or> v = JNull then
        throw (typeError ''Cannot convert undefined or null to object'')
      else ret (without_prop v k))"

text \<open>Array spread \<^verbatim>\<open>[ ...v ]\<close>: only arrays and strings are iterable.\<close>

fun iterable :: "jsval \<Rightarrow> jsval list option" where
  "iterable (JArr xs) = Some xs"
| "iterable (JStr s) = Some (map (\<lambda>c. JStr [c]) s)"
| "iterable v = None"

definition spread_array :: "jsval \<Rightarrow> jsval list run" where
  "spread_array v =
     (case iterable v of
        Some xs \<Rightarrow> ret xs
      | None \<Rightarrow> throw (typeError ''req.body.data is not iterable''))"

subsection \<open>The two catch blocks\<close>

text \<open>
  \<^verbatim>\<open>addBlog\<close>, \<^verbatim>\<open>bulkInsertBlog\<close> and \<^verbatim>\<open>updateBlog\<close> end in the first block, the nine
  other handlers in the second. A catch block is not inside a \<^verbatim>\<open>try\<close>: what it throws,
  the handler throws.
\<close>

definition catchValidation :: "jsval \<Rightarrow> unit run" where
  "catchValidation error =
     thenDo (get_prop error ''name'') (\<lambda>n.
     if n = JStr ''ValidationError'' then
       thenDo (get_prop error ''message'') (\<lambda>m.
       respond (ValidationError (Template ''Invalid Data, Validation Failed at '' m)))
     else
       thenDo (get_prop error ''code'') (\<lambda>c.
       if truthy c \<and> c = JNum 11000 then
         respond (ValidationError (Lit ''Data duplication found.''))
       else
         thenDo (get_prop error ''message'') (\<lambda>m.
         respond (InternalServerError m))))"

definition catchAll :: "jsval \<Rightarrow> unit run" where
  "catchAll error =
     thenDo (get_prop error ''message'') (\<lambda>m.
     respond (InternalServerError m))"

subsection \<open>The handlers\<close>

definition addBlog :: "collaborators \<Rightarrow> request \<Rightarrow> unit run" where
  "addBlog env req = tryCatch
     (let dataToCreate = spread (if truthy (body req) then body req else JObj []) in
      thenDo (call env (ValidateParamsWithJoi (JObj dataToCreate) SchemaKeys)) (\<lambda>validateRequest.
      thenDo (get_prop validateRequest ''isValid'') (\<lambda>isValid.
      if \<not> truthy isValid then
        thenDo (get_prop validateRequest ''message'') (\<lambda>m.
        respond (ValidationError (Template ''Invalid values in parameters, '' m)))
      else
        let dataToCreate = AList.update ''addedBy'' (user_id req) dataToCreate in
        thenDo (call env (NewBlog (JObj dataToCreate))) (\<lambda>dataToCreate.
        thenDo (call env (CreateDocument dataToCreate)) (\<lambda>createdBlog.
        respond (Success createdBlog))))))
     catchValidation"

definition findAllBlog :: "collaborators \<Rightarrow> request \<Rightarrow> unit run" where
  "findAllBlog env req = tryCatch
     (thenDo (call env (ValidateFilterWithJoi (body req) FindFilterKeys True)) (\<lambda>validateRequest.
      thenDo (get_prop validateRequest ''isValid'') (\<lambda>isValid.
      if \<not> truthy isValid then
        thenDo (get_prop validateRequest ''message'') (\<lambda>m.
        respond (ValidationError (Template [] m)))
      else
        thenDo (get_prop (body req) ''query'') (\<lambda>q.
        let query = (if is_object q then JObj (spread q) else JObj []) in
        thenDo (get_prop (body req) ''isCountOnly'') (\<lambda>isCountOnly.
        if truthy isCountOnly then
          thenDo (call env (CountDocument query)) (\<lambda>totalRecords.
          respond (Success (JObj [(''totalRecords'', totalRecords)])))
        else
          let options =
            (if truthy (body req) \<and> is_object (read_prop (body req) ''options'')
             then JObj (spread (read_prop (body req) ''options'')) else JObj []) in
          thenDo (call env (GetAllDocuments query options)) (\<lambda>foundBlogs.
          if \<not> truthy foundBlogs \<or> \<not> truthy (read_prop foundBlogs ''data'')
             \<or> \<not> truthy (read_prop (read_prop foundBlogs ''data'') ''length'')
          then respond RecordNotFound
          else respond (Success foundBlogs)))))))
     catchAll"

definition getBlogCount :: "collaborators \<Rightarrow> request \<Rightarrow> unit run" where
  "getBlogCount env req = tryCatch
     (thenDo (call env (ValidateFilterWithJoi (body req) FindFilterKeys False)) (\<lambda>validateRequest.
      thenDo (get_prop validateRequest ''isValid'') (\<lambda>isValid.
      if \<not> truthy isValid then
        thenDo (get_prop validateRequest ''message'') (\<lambda>m.
        respond (ValidationError (Template [] m)))
      else
        thenDo (get_prop (body req) ''where'') (\<lambda>w.
        let where = (if is_object w then JObj (spread w) else JObj []) in
        thenDo (call env (CountDocument where)) (\<lambda>countedBlog.
        respond (Success (JObj [(''totalRecords'', countedBlog)])))))))
     catchAll"

definition softDeleteManyBlog :: "collaborators \<Rightarrow> request \<Rightarrow> unit run" where
  "softDeleteManyBlog env req = tryCatch
     (thenDo (get_prop (body req) ''ids'') (\<lambda>ids.
      if \<not> truthy ids \<or> \<not> isArray ids \<or> arrayLength ids < 1 then respond BadRequest
      else
        let query = JObj [(''_id'', JObj [(''$in'', ids)])];
            updateBody = JObj [(''isDeleted'', JBool True), (''updatedBy'', user_id req)] in
        thenDo (call env (BulkUpdate query updateBody)) (\<lambda>updatedBlog.
        if \<not> truthy updatedBlog then respond RecordNotFound
        else respond (Success updatedBlog))))
     catchAll"

text \<open>The \<^verbatim>\<open>for\<close> loop of \<^verbatim>\<open>bulkInsertBlog\<close> over the copied array.\<close>

primrec injectAddedBy :: "jsval \<Rightarrow> jsval list \<Rightarrow> jsval list" where
  "injectAddedBy uid [] = []"
| "injectAddedBy uid (item # items) =
     JObj (AList.update ''addedBy'' uid (spread item)) # injectAddedBy uid items"

definition bulkInsertBlog :: "collaborators \<Rightarrow> request \<Rightarrow> unit run" where
  "bulkInsertBlog env req = tryCatch
     (if truthy (body req)
         \<and> (\<not> isArray (read_prop (body req) ''data'') \<or> arrayLength (read_prop (body req) ''data'') < 1)
      then respond BadRequest
      else
        thenDo (get_prop (body req) ''data'') (\<lambda>d.
        thenDo (spread_array d) (\<lambda>dataToCreate.
        let dataToCreate = injectAddedBy (user_id req) dataToCreate in
        thenDo (call env (BulkInsert (JArr dataToCreate))) (\<lambda>createdBlogs.
        respond (Success createdBlogs)))))
     catchValidation"

definition bulkUpdateBlog :: "collaborators \<Rightarrow> request \<Rightarrow> unit run" where
  "bulkUpdateBlog env req = tryCatch
     (let filter =
        (if truthy (body req) \<and> truthy (read_prop (body req) ''filter'')
         then JObj (spread (read_prop (body req) ''filter'')) else JObj []) in
      thenDo (get_prop (body req) ''data'') (\<lambda>d.
      let dataToUpdate = AList.delete ''addedBy'' (spread d);
          dataToUpdate =
            (if is_object d then AList.update ''updatedBy'' (user_id req) dataToUpdate
             else dataToUpdate) in
      thenDo (call env (BulkUpdate filter (JObj dataToUpdate))) (\<lambda>result.
      if \<not> truthy result then respond RecordNotFound
      else respond (Success result))))
     catchAll"

definition deleteManyBlog :: "collaborators \<Rightarrow> request \<Rightarrow> unit run" where
  "deleteManyBlog env req = tryCatch
     (thenDo (get_prop (body req) ''ids'') (\<lambda>ids.
      if \<not> truthy ids \<or> \<not> isArray ids \<or> arrayLength ids < 1 then respond BadRequest
      else
        let query = JObj [(''_id'', JObj [(''$in'', ids)])] in
        thenDo (call env (DeleteMany query)) (\<lambda>deletedBlog.
        if \<not> truthy deletedBlog then respond RecordNotFound
        else respond (Success deletedBlog))))
     catchAll"

definition softDeleteBlog :: "collaborators \<Rightarrow> request \<Rightarrow> unit run" where
  "softDeleteBlog env req = tryCatch
     (if \<not> truthy (params_id req) then respond BadRequest
      else
        let query = JObj [(''_id'', params_id req)];
            updateBody = JObj [(''isDeleted'', JBool True), (''updatedBy'', user_id req)] in
        thenDo (call env (FindOneAndUpdateDocument query updateBody (JObj [(''new'', JBool True)])))
          (\<lambda>updatedBlog.
        if \<not> truthy updatedBlog then respond RecordNotFound
        else respond (Success updatedBlog)))
     catchAll"

text \<open>
  In \<^verbatim>\<open>partialUpdateBlog\<close> the call \<^verbatim>\<open>res.badRequest()\<close> has no \<^verbatim>\<open>return\<close>: the
  statements after it run in both cases.
\<close>

definition partialUpdateBlog :: "collaborators \<Rightarrow> request \<Rightarrow> unit run" where
  "partialUpdateBlog env req = tryCatch
     (thenDo (if \<not> truthy (params_id req) then respond BadRequest else ret ()) (\<lambda>_.
      thenDo (delete_prop (body req) ''addedBy'') (\<lambda>body'.
      let dataToUpdate = AList.update ''updatedBy'' (user_id req) (spread body') in
      thenDo (call env (ValidateParamsWithJoi (JObj dataToUpdate) UpdateSchemaKeys)) (\<lambda>validateRequest.
      thenDo (get_prop validateRequest ''isValid'') (\<lambda>isValid.
      if \<not> truthy isValid then
        thenDo (get_prop validateRequest ''message'') (\<lambda>m.
        respond (ValidationError (Template ''Invalid values in parameters, '' m)))
      else
        let query = JObj [(''_id'', params_id req)] in
        thenDo (call env (FindOneAndUpdateDocument query (JObj dataToUpdate) (JObj [(''new'', JBool True)])))
          (\<lambda>updatedBlog.
        if \<not> truthy updatedBlog then respond RecordNotFound
        else respond (Success updatedBlog)))))))
     catchAll"

definition updateBlog :: "collaborators \<Rightarrow> request \<Rightarrow> unit run" where
  "updateBlog env req = tryCatch
     (let dataToUpdate = AList.update ''updatedBy'' (user_id req) (spread (body req)) in
      thenDo (call env (ValidateParamsWithJoi (JObj dataToUpdate) UpdateSchemaKeys)) (\<lambda>validateRequest.
      thenDo (get_prop validateRequest ''isValid'') (\<lambda>isValid.
      if \<not> truthy isValid then
        thenDo (get_prop validateRequest ''message'') (\<lambda>m.
        respond (ValidationError (Template ''Invalid values in parameters, '' m)))
      else
        let query = JObj [(''_id'', params_id req)] in
        thenDo (call env (FindOneAndUpdateDocument query (JObj dataToUpdate) (JObj [(''new'', JBool True)])))
          (\<lambda>updatedBlog.
        if \<not> truthy updatedBlog then respond RecordNotFound
        else respond (Success updatedBlog)))))
     catchValidation"

definition getBlog :: "collaborators \<Rightarrow> request \<Rightarrow> unit run" where
  "getBlog env req = tryCatch
     (thenDo (call env (ObjectIdIsValid (params_id req))) (\<lambda>valid.
      if \<not> truthy valid then respond (ValidationError (Lit ''invalid objectId.''))
      else
        let query = JObj [(''_id'', params_id req)];
            options = JObj [] in
        thenDo (call env (GetSingleDocument query options)) (\<lambda>foundBlog.
        if \<not> truthy foundBlog then respond RecordNotFound
        else respond (Success foundBlog))))
     catchAll"

definition deleteBlog :: "collaborators \<Rightarrow> request \<Rightarrow> unit run" where
  "deleteBlog env req = tryCatch
     (if \<not> truthy (params_id req) then respond BadRequest
      else
        let query = JObj [(''_id'', params_id req)] in
        thenDo (call env (FindOneAndDeleteDocument query)) (\<lambda>deletedBlog.
        if \<not> truthy deletedBlog then respond RecordNotFound
        else respond (Success deletedBlog)))
     catchAll"

text \<open>\<^verbatim>\<open>module.exports\<close>: the twelve handlers by name.\<close>

datatype handler =
    AddBlog
  | FindAllBlog
  | GetBlogCount
  | SoftDeleteManyBlog
  | BulkInsertBlog
  | BulkUpdateBlog
  | DeleteManyBlog
  | SoftDeleteBlog
  | PartialUpdateBlog
  | UpdateBlog
  | GetBlog
  | DeleteBlog

fun exports :: "handler \<Rightarrow> collaborators \<Rightarrow> request \<Rightarrow> unit run" where
  "exports AddBlog = addBlog"
| "exports FindAllBlog = findAllBlog"
| "exports GetBlogCount = getBlogCount"
| "exports SoftDeleteManyBlog = softDeleteManyBlog"
| "exports BulkInsertBlog = bulkInsertBlog"
| "exports BulkUpdateBlog = bulkUpdateBlog"
| "exports DeleteManyBlog = deleteManyBlog"
| "exports SoftDeleteBlog = softDeleteBlog"
| "exports PartialUpdateBlog = partialUpdateBlog"
| "exports UpdateBlog = updateBlog"
| "exports GetBlog = getBlog"
| "exports DeleteBlog = deleteBlog"

subsection \<open>Reading a run\<close>

text \<open>
  The operations of the document-access service among the calls, and those of them
  that remove documents.
\<close>

fun is_store_call :: "call \<Rightarrow> bool" where
  "is_store_call (ValidateParamsWithJoi d k) = False"
| "is_store_call (ValidateFilterWithJoi d k m) = False"
| "is_store_call (NewBlog d) = False"
| "is_store_call (ObjectIdIsValid i) = False"
| "is_store_call c = True"

fun is_delete_call :: "call \<Rightarrow> bool" where
  "is_delete_call (DeleteMany q) = True"
| "is_delete_call (FindOneAndDeleteDocument q) = True"
| "is_delete_call c = False"

fun store_calls :: "event list \<Rightarrow> call list" where
  "store_calls [] = []"
| "store_calls (Call c # t) = (if is_store_call c then c # store_calls t else store_calls t)"
| "store_calls (Respond r # t) = store_calls t"

fun responses :: "event list \<Rightarrow> response list" where
  "responses [] = []"
| "responses (Call c # t) = responses t"
| "responses (Respond r # t) = r # responses t"

text \<open>Collaborators that answer every call alike, for concrete runs.\<close>

definition answerAll :: "jsval \<Rightarrow> collaborators" where
  "answerAll v c = Inr v"

definition throwAll :: "jsval \<Rightarrow> collaborators" where
  "throwAll e c = Inl e"

text \<open>
  Collaborators whose store operations all end the same way, with a thrown error or
  a returned value, while every other collaborator returns \<open>v\<close>.
\<close>

definition collaboratorsWith :: "jsval \<Rightarrow> jsval + jsval \<Rightarrow> collaborators" where
  "collaboratorsWith v s c = (if is_store_call c then s else Inr v)"

text \<open>
  ``Missing, not an array, or empty'' is the negation of \<open>nonEmptyArray\<close>; the source
  writes it \<^verbatim>\<open>!ids || !Array.isArray(ids) || ids.length < 1\<close>.
\<close>

fun nonEmptyArray :: "jsval \<Rightarrow> bool" where
  "nonEmptyArray (JArr (x # xs)) = True"
| "nonEmptyArray v = False"

text \<open>The update document handed to the two update operations of the store.\<close>

fun update_payload :: "call \<Rightarrow> jsval option" where
  "update_payload (BulkUpdate q p) = Some p"
| "update_payload (FindOneAndUpdateDocument q p opts) = Some p"
| "update_payload c = None"

text \<open>
  A postcondition on a run: \<open>Q\<close> for the events and the value when the run returns,
  \<open>E\<close> for the events and the thrown value when it throws.
\<close>

definition ensures ::
  "'a run \<Rightarrow> (event list \<Rightarrow> 'a \<Rightarrow> bool) \<Rightarrow> (event list \<Rightarrow> jsval \<Rightarrow> bool) \<Rightarrow> bool" where
  "ensures m Q E = (case snd m of Inr x \<Rightarrow> Q (fst m) x | Inl e \<Rightarrow> E (fst m) e)"

subsection \<open>The update operations of the document store\<close>

text \<open>
  The document-access service \<^verbatim>\<open>utils/dbService\<close> is not among the sources; what its
  update operations do to a collection is taken from the spec. A collection is a list
  of documents, a document the list of its fields. Which documents a query matches is a
  parameter of the model.
\<close>

type_synonym document = "(string \<times> jsval) list"

type_synonym collection = "document list"

text \<open>
  Modelled from the spec: an update ``sets'' the fields of the update document on a
  document (``set \<^verbatim>\<open>isDeleted=true\<close> + \<^verbatim>\<open>updatedBy\<close> on matching documents''); the
  implementation in \<^verbatim>\<open>utils/dbService\<close> is missing.
\<close>

definition set_fields :: "(string \<times> jsval) list \<Rightarrow> document \<Rightarrow> document" where
  "set_fields payload d = fold (\<lambda>(k, v). AList.update k v) payload d"

text \<open>
  Modelled from the spec: \<^verbatim>\<open>findOneAndUpdateDocument\<close> of the missing \<^verbatim>\<open>utils/dbService\<close>
  updates a ``single record'', here the first document that matches.
\<close>

fun update_first :: "(document \<Rightarrow> bool) \<Rightarrow> (document \<Rightarrow> document) \<Rightarrow> collection \<Rightarrow> collection" where
  "update_first p f [] = []"
| "update_first p f (d # ds) = (if p d then f d # ds else d # update_first p f ds)"

text \<open>
  Modelled from the spec: the collection after the update operations among the given
  store calls, \<^verbatim>\<open>bulkUpdate\<close> acting ``on matching documents'' and
  \<^verbatim>\<open>findOneAndUpdateDocument\<close> on a single one (both of the missing \<^verbatim>\<open>utils/dbService\<close>).
  Calls that are not updates are passed over; a soft delete ``never removes the record,
  only flags it''.
\<close>

fun apply_updates :: "(jsval \<Rightarrow> document \<Rightarrow> bool) \<Rightarrow> call list \<Rightarrow> collection \<Rightarrow> collection" where
  "apply_updates matches [] coll = coll"
| "apply_updates matches (BulkUpdate q p # cs) coll =
     apply_updates matches cs
       (map (\<lambda>d. if matches q d then set_fields (spread p) d else d) coll)"
| "apply_updates matches (FindOneAndUpdateDocument q p opts # cs) coll =
     apply_updates matches cs (update_first (matches q) (set_fields (spread p)) coll)"
| "apply_updates matches (c # cs) coll = apply_updates matches cs coll"

text \<open>A query matcher for concrete runs: equality on \<^verbatim>\<open>_id\<close>.\<close>

definition matchesId :: "jsval \<Rightarrow> document \<Rightarrow> bool" where
  "matchesId q d = (map_of d ''_id'' = Some (read_prop q ''_id''))"

section \<open>Reasoning about runs\<close>

lemma ensures_run: "ensures m (\<lambda>t x. P (t, Inr x)) (\<lambda>t e. P (t, Inl e)) \<Longrightarrow> P m"
  by (cases m) (auto simp: ensures_def split: sum.splits)

lemma ensures_ret: "Q [] x \<Longrightarrow> ensures (ret x) Q E"
  by (simp add: ensures_def ret_def)

lemma ensures_throw: "E [] e \<Longrightarrow> ensures (throw e) Q E"
  by (simp add: ensures_def throw_def)

lemma ensures_respond: "Q [Respond r] () \<Longrightarrow> ensures (respond r) Q E"
  by (simp add: ensures_def respond_def)

lemma ensures_call:
  "(\<And>v. env c = Inr v \<Longrightarrow> Q [Call c] v) \<Longrightarrow> (\<And>e. env c = Inl e \<Longrightarrow> E [Call c] e)
   \<Longrightarrow> ensures (call env c) Q E"
  by (simp add: ensures_def call_def split: sum.splits)

lemma ensures_thenDo:
  "ensures m (\<lambda>t x. ensures (f x) (\<lambda>t'. Q (t @ t')) (\<lambda>t'. E (t @ t'))) E
   \<Longrightarrow> ensures (thenDo m f) Q E"
  by (cases m) (auto simp: ensures_def thenDo_def split: sum.splits prod.splits)

lemma ensures_tryCatch:
  "ensures m Q (\<lambda>t e. ensures (h e) (\<lambda>t'. Q (t @ t')) (\<lambda>t'. E (t @ t')))
   \<Longrightarrow> ensures (tryCatch m h) Q E"
  by (cases m) (auto simp: ensures_def tryCatch_def split: sum.splits prod.splits)

lemma ensures_if:
  "(b \<Longrightarrow> ensures m Q E) \<Longrightarrow> (\<not> b \<Longrightarrow> ensures n Q E) \<Longrightarrow> ensures (if b then m else n) Q E"
  by simp

lemma ensures_get_prop:
  "(v \<noteq> JUndefined \<Longrightarrow> v \<noteq> JNull \<Longrightarrow> Q [] (read_prop v k))
   \<Longrightarrow> (\<And>m. v = JUndefined \<or> v = JNull \<Longrightarrow> E [] (typeError m))
   \<Longrightarrow> ensures (get_prop v k) Q E"
  by (simp add: get_prop_def ensures_ret ensures_throw)

lemma ensures_delete_prop:
  "(v \<noteq> JUndefined \<Longrightarrow> v \<noteq> JNull \<Longrightarrow> Q [] (without_prop v k))
   \<Longrightarrow> (\<And>m. v = JUndefined \<or> v = JNull \<Longrightarrow> E [] (typeError m))
   \<Longrightarrow> ensures (delete_prop v k) Q E"
  by (auto simp add: delete_prop_def ensures_ret ensures_throw)

lemma ensures_spread_array:
  "(\<And>xs. iterable v = Some xs \<Longrightarrow> Q [] xs)
   \<Longrightarrow> (\<And>m. iterable v = None \<Longrightarrow> E [] (typeError m))
   \<Longrightarrow> ensures (spread_array v) Q E"
  by (auto simp add: spread_array_def ensures_ret ensures_throw split: option.splits)

lemma ensures_catchAll:
  "(e \<noteq> JUndefined \<Longrightarrow> e \<noteq> JNull \<Longrightarrow>
      Q [Respond (InternalServerError (read_prop e ''message''))] ())
   \<Longrightarrow> (\<And>m. e = JUndefined \<or> e = JNull \<Longrightarrow> E [] (typeError m))
   \<Longrightarrow> ensures (catchAll e) Q E"
  unfolding catchAll_def
  by (intro ensures_thenDo ensures_get_prop ensures_respond) simp_all

lemma ensures_catchValidation:
  "(e \<noteq> JUndefined \<Longrightarrow> e \<noteq> JNull \<Longrightarrow> read_prop e ''name'' = JStr ''ValidationError'' \<Longrightarrow>
      Q [Respond (ValidationError (Template ''Invalid Data, Validation Failed at ''
                                     (read_prop e ''message'')))] ())
   \<Longrightarrow> (e \<noteq> JUndefined \<Longrightarrow> e \<noteq> JNull \<Longrightarrow> read_prop e ''name'' \<noteq> JStr ''ValidationError'' \<Longrightarrow>
        read_prop e ''code'' = JNum 11000 \<Longrightarrow>
      Q [Respond (ValidationError (Lit ''Data duplication found.''))] ())
   \<Longrightarrow> (e \<noteq> JUndefined \<Longrightarrow> e \<noteq> JNull \<Longrightarrow> read_prop e ''name'' \<noteq> JStr ''ValidationError'' \<Longrightarrow>
        read_prop e ''code'' \<noteq> JNum 11000 \<Longrightarrow>
      Q [Respond (InternalServerError (read_prop e ''message''))] ())
   \<Longrightarrow> (\<And>m. e = JUndefined \<or> e = JNull \<Longrightarrow> E [] (typeError m))
   \<Longrightarrow> ensures (catchValidation e) Q E"
  unfolding catchValidation_def
  by (cases "read_prop e ''code'' = JNum 11000";
      intro ensures_thenDo ensures_get_prop ensures_if ensures_respond) auto

lemmas vcg = ensures_tryCatch ensures_thenDo ensures_if ensures_ret ensures_throw ensures_respond
  ensures_call ensures_get_prop ensures_delete_prop ensures_spread_array ensures_catchAll
  ensures_catchValidation

lemmas handler_defs = addBlog_def findAllBlog_def getBlogCount_def softDeleteManyBlog_def
  bulkInsertBlog_def bulkUpdateBlog_def deleteManyBlog_def softDeleteBlog_def
  partialUpdateBlog_def updateBlog_def getBlog_def deleteBlog_def

lemmas run_defs = thenDo_def tryCatch_def call_def respond_def ret_def throw_def get_prop_def
  delete_prop_def spread_array_def catchAll_def catchValidation_def typeError_def errorObject_def
  answerAll_def throwAll_def collaboratorsWith_def Let_def

lemma nonEmptyArray_iff: "nonEmptyArray v = (isArray v \<and> 0 < arrayLength v)"
  by (cases v rule: nonEmptyArray.cases) simp_all

lemma bad_list_iff: "(\<not> truthy v \<or> \<not> isArray v \<or> arrayLength v < 1) = (\<not> nonEmptyArray v)"
  by (cases v rule: nonEmptyArray.cases) simp_all

lemma falsy_read_data: "\<not> truthy v \<Longrightarrow> read_prop v ''data'' = JUndefined"
  by (cases v) simp_all

lemma nonEmptyArray_truthy:
  "nonEmptyArray d \<Longrightarrow> truthy d \<and> truthy (read_prop d ''length'')"
  by (cases d rule: nonEmptyArray.cases) simp_all

lemma nonEmpty_data_truthy: "nonEmptyArray (read_prop r ''data'') \<Longrightarrow> truthy r"
  by (cases r) simp_all

section \<open>Every handler ends with a response\<close>




section \<open>Bulk operations on a missing or empty list\<close>

text \<open>
  C2 as stated fails when the request has no body at all: reading \<^verbatim>\<open>req.body.ids\<close> throws
  a \<^verbatim>\<open>TypeError\<close>, and the catch block answers with the internal-server-error response,
  not with a bad request.
\<close>

theorem softDeleteManyBlog_without_body_counterexample:
  "\<not> nonEmptyArray (read_prop (body \<lparr>body = JUndefined, params_id = JUndefined, user_id = JStr ''u1''\<rparr>) ''ids'')
   \<and> fst (softDeleteManyBlog (answerAll JNull)
            \<lparr>body = JUndefined, params_id = JUndefined, user_id = JStr ''u1''\<rparr>)
       = [Respond (InternalServerError (JStr (''Cannot read properties of undefined (reading ''
            @ [CHR 0x27] @ ''ids'' @ [CHR 0x27] @ '')'')))]
   \<and> Respond BadRequest \<notin> set (fst (softDeleteManyBlog (answerAll JNull)
            \<lparr>body = JUndefined, params_id = JUndefined, user_id = JStr ''u1''\<rparr>))"
  by (simp add: softDeleteManyBlog_def run_defs)

text \<open>
  C2 (amended). Let the \<^verbatim>\<open>ids\<close> list of the request (for \<^verbatim>\<open>softDeleteManyBlog\<close> and
  \<^verbatim>\<open>deleteManyBlog\<close>) or its \<^verbatim>\<open>data\<close> array (for \<^verbatim>\<open>bulkInsertBlog\<close>) be missing, not an array,
  or empty. Then the handler invokes no operation of the document store. When the
  request has a body (not \<^verbatim>\<open>undefined\<close> or \<^verbatim>\<open>null\<close>; for \<^verbatim>\<open>bulkInsertBlog\<close>: a truthy body),
  the bad-request response is all the handler does; when it has none, the handler
  answers with the internal-server-error response instead.
\<close>

theorem bulk_guards:
  "(\<not> nonEmptyArray (read_prop (body req) ''ids'') \<longrightarrow>
      store_calls (fst (softDeleteManyBlog env req)) = [] \<and>
      store_calls (fst (deleteManyBlog env req)) = [] \<and>
      (body req \<noteq> JUndefined \<and> body req \<noteq> JNull \<longrightarrow>
         fst (softDeleteManyBlog env req) = [Respond BadRequest] \<and>
         fst (deleteManyBlog env req) = [Respond BadRequest]) \<and>
      (body req = JUndefined \<or> body req = JNull \<longrightarrow>
         (\<exists>m. fst (softDeleteManyBlog env req) = [Respond (InternalServerError m)]) \<and>
         (\<exists>m. fst (deleteManyBlog env req) = [Respond (InternalServerError m)]))) \<and>
   (\<not> nonEmptyArray (read_prop (body req) ''data'') \<longrightarrow>
      store_calls (fst (bulkInsertBlog env req)) = [] \<and>
      (truthy (body req) \<longrightarrow> fst (bulkInsertBlog env req) = [Respond BadRequest]) \<and>
      (\<not> truthy (body req) \<longrightarrow>
         (\<exists>m. fst (bulkInsertBlog env req) = [Respond (InternalServerError m)])))"
proof -
  let ?P = "\<lambda>m :: unit run. \<not> nonEmptyArray (read_prop (body req) ''ids'') \<longrightarrow>
      store_calls (fst m) = [] \<and>
      (body req \<noteq> JUndefined \<and> body req \<noteq> JNull \<longrightarrow> fst m = [Respond BadRequest]) \<and>
      (body req = JUndefined \<or> body req = JNull \<longrightarrow>
         (\<exists>x. fst m = [Respond (InternalServerError x)]))"
  have soft: "?P (softDeleteManyBlog env req)"
    apply (rule ensures_run [where m = "softDeleteManyBlog env req"])
    apply (simp only: softDeleteManyBlog_def Let_def bad_list_iff)
    apply (intro vcg; simp add: typeError_def)
    done
  have hard: "?P (deleteManyBlog env req)"
    apply (rule ensures_run [where m = "deleteManyBlog env req"])
    apply (simp only: deleteManyBlog_def Let_def bad_list_iff)
    apply (intro vcg; simp add: typeError_def)
    done
  let ?R = "\<lambda>m :: unit run. \<not> nonEmptyArray (read_prop (body req) ''data'') \<longrightarrow>
      store_calls (fst m) = [] \<and>
      (truthy (body req) \<longrightarrow> fst m = [Respond BadRequest]) \<and>
      (\<not> truthy (body req) \<longrightarrow> (\<exists>x. fst m = [Respond (InternalServerError x)]))"
  have ins: "?R (bulkInsertBlog env req)"
    apply (rule ensures_run [where m = "bulkInsertBlog env req"])
    apply (simp only: bulkInsertBlog_def Let_def)
    apply (intro vcg; cases "truthy (body req)";
           simp add: typeError_def nonEmptyArray_iff falsy_read_data)
    done
  from soft hard ins show ?thesis by blast
qed

text \<open>
  A request whose \<^verbatim>\<open>ids\<close> is the empty array and whose \<^verbatim>\<open>data\<close> is a string: each of
  the three handlers answers bad request and does nothing else.
\<close>

theorem bulk_guards_witness:
  "\<not> nonEmptyArray (read_prop (JObj [(''ids'', JArr []), (''data'', JStr ''x'')]) ''ids'')
   \<and> \<not> nonEmptyArray (read_prop (JObj [(''ids'', JArr []), (''data'', JStr ''x'')]) ''data'')
   \<and> fst (softDeleteManyBlog (answerAll (JNum 1))
        \<lparr>body = JObj [(''ids'', JArr []), (''data'', JStr ''x'')], params_id = JUndefined,
         user_id = JStr ''u1''\<rparr>) = [Respond BadRequest]
   \<and> fst (deleteManyBlog (answerAll (JNum 1))
        \<lparr>body = JObj [(''ids'', JArr []), (''data'', JStr ''x'')], params_id = JUndefined,
         user_id = JStr ''u1''\<rparr>) = [Respond BadRequest]
   \<and> fst (bulkInsertBlog (answerAll (JNum 1))
        \<lparr>body = JObj [(''ids'', JArr []), (''data'', JStr ''x'')], params_id = JUndefined,
         user_id = JStr ''u1''\<rparr>) = [Respond BadRequest]"
  using bulk_guards [of "\<lparr>body = JObj [(''ids'', JArr []), (''data'', JStr ''x'')],
          params_id = JUndefined, user_id = JStr ''u1''\<rparr>" "answerAll (JNum 1)"]
  by simp

section \<open>Thrown errors\<close>




section \<open>Listing and counting\<close>

text \<open>
  C4. Let the \<^verbatim>\<open>isCountOnly\<close> of a \<^verbatim>\<open>findAllBlog\<close> request be truthy. Then the handler
  never calls \<^verbatim>\<open>getAllDocuments\<close>; and when the request is valid (the validation service
  returns a truthy \<^verbatim>\<open>isValid\<close>) and the count operation returns \<open>n\<close>, the handler validates,
  counts, and answers success with exactly \<^verbatim>\<open>{ totalRecords: n }\<close>.
\<close>

theorem findAllBlog_count_only:
  "truthy (read_prop (body req) ''isCountOnly'') \<longrightarrow>
     (\<forall>q opts. Call (GetAllDocuments q opts) \<notin> set (fst (findAllBlog env req))) \<and>
     (env (ValidateFilterWithJoi (body req) FindFilterKeys True) = Inr v \<and>
      truthy (read_prop v ''isValid'') \<and>
      env (CountDocument (if is_object (read_prop (body req) ''query'')
                          then JObj (spread (read_prop (body req) ''query'')) else JObj [])) = Inr n \<longrightarrow>
        fst (findAllBlog env req) =
          [Call (ValidateFilterWithJoi (body req) FindFilterKeys True),
           Call (CountDocument (if is_object (read_prop (body req) ''query'')
                          then JObj (spread (read_prop (body req) ''query'')) else JObj [])),
           Respond (Success (JObj [(''totalRecords'', n)]))])"
  apply (rule ensures_run [where m = "findAllBlog env req"])
  apply (simp only: findAllBlog_def Let_def)
  apply (intro vcg; auto simp: typeError_def)
  done

text \<open>A count-only request with a query, against a store that counts 7.\<close>

theorem findAllBlog_count_only_witness:
  "truthy (read_prop (JObj [(''query'', JObj [(''isActive'', JBool True)]),
                            (''isCountOnly'', JBool True)]) ''isCountOnly'')
   \<and> fst (findAllBlog (collaboratorsWith (JObj [(''isValid'', JBool True)]) (Inr (JNum 7)))
        \<lparr>body = JObj [(''query'', JObj [(''isActive'', JBool True)]), (''isCountOnly'', JBool True)],
         params_id = JUndefined, user_id = JStr ''u1''\<rparr>)
     = [Call (ValidateFilterWithJoi
                (JObj [(''query'', JObj [(''isActive'', JBool True)]), (''isCountOnly'', JBool True)])
                FindFilterKeys True),
        Call (CountDocument (JObj [(''isActive'', JBool True)])),
        Respond (Success (JObj [(''totalRecords'', JNum 7)]))]"
  using findAllBlog_count_only
    [where env = "collaboratorsWith (JObj [(''isValid'', JBool True)]) (Inr (JNum 7))"
       and req = "\<lparr>body = JObj [(''query'', JObj [(''isActive'', JBool True)]),
                                (''isCountOnly'', JBool True)],
                   params_id = JUndefined, user_id = JStr ''u1''\<rparr>"
       and v = "JObj [(''isValid'', JBool True)]" and n = "JNum 7"]
  by (simp add: collaboratorsWith_def)

text \<open>
  C6. Let a \<^verbatim>\<open>findAllBlog\<close> request be valid and not count-only, and let the store return
  \<open>r\<close> for the listing. Then the handler validates, lists, and answers once: record not
  found when \<^verbatim>\<open>!r || !r.data || !r.data.length\<close>, success with \<open>r\<close> otherwise. In
  particular it answers record not found when \<open>r\<close> is no result, has no data, or has the
  empty list as data, and success with \<open>r\<close> when the data of \<open>r\<close> is a non-empty list.
\<close>

theorem findAllBlog_list:
  "env (ValidateFilterWithJoi (body req) FindFilterKeys True) = Inr v \<and>
   truthy (read_prop v ''isValid'') \<and>
   body req \<noteq> JUndefined \<and> body req \<noteq> JNull \<and>
   \<not> truthy (read_prop (body req) ''isCountOnly'') \<and>
   env (GetAllDocuments
          (if is_object (read_prop (body req) ''query'')
           then JObj (spread (read_prop (body req) ''query'')) else JObj [])
          (if truthy (body req) \<and> is_object (read_prop (body req) ''options'')
           then JObj (spread (read_prop (body req) ''options'')) else JObj [])) = Inr r \<longrightarrow>
     fst (findAllBlog env req) =
       [Call (ValidateFilterWithJoi (body req) FindFilterKeys True),
        Call (GetAllDocuments
          (if is_object (read_prop (body req) ''query'')
           then JObj (spread (read_prop (body req) ''query'')) else JObj [])
          (if truthy (body req) \<and> is_object (read_prop (body req) ''options'')
           then JObj (spread (read_prop (body req) ''options'')) else JObj [])),
        Respond (if \<not> truthy r \<or> \<not> truthy (read_prop r ''data'')
                    \<or> \<not> truthy (read_prop (read_prop r ''data'') ''length'')
                 then RecordNotFound else Success r)] \<and>
     (r = JUndefined \<or> r = JNull \<or> read_prop r ''data'' = JUndefined
        \<or> read_prop r ''data'' = JNull \<or> read_prop r ''data'' = JArr [] \<longrightarrow>
        responses (fst (findAllBlog env req)) = [RecordNotFound]) \<and>
     (nonEmptyArray (read_prop r ''data'') \<longrightarrow>
        responses (fst (findAllBlog env req)) = [Success r])"
  apply (rule ensures_run [where m = "findAllBlog env req"])
  apply (simp only: findAllBlog_def Let_def)
  apply (intro vcg; auto simp: typeError_def dest: nonEmptyArray_truthy nonEmpty_data_truthy)
  done

text \<open>
  The same request against a store that returns one document, and against a store
  that returns an empty page.
\<close>

theorem findAllBlog_list_witness:
  "responses (fst (findAllBlog
       (collaboratorsWith (JObj [(''isValid'', JBool True)])
          (Inr (JObj [(''data'', JArr [JObj [(''title'', JStr ''t'')]])])))
       \<lparr>body = JObj [(''options'', JObj [(''page'', JNum 1)])], params_id = JUndefined,
        user_id = JStr ''u1''\<rparr>))
     = [Success (JObj [(''data'', JArr [JObj [(''title'', JStr ''t'')]])])]
   \<and> responses (fst (findAllBlog
       (collaboratorsWith (JObj [(''isValid'', JBool True)]) (Inr (JObj [(''data'', JArr [])])))
       \<lparr>body = JObj [(''options'', JObj [(''page'', JNum 1)])], params_id = JUndefined,
        user_id = JStr ''u1''\<rparr>))
     = [RecordNotFound]"
  using findAllBlog_list
    [where env = "collaboratorsWith (JObj [(''isValid'', JBool True)])
                    (Inr (JObj [(''data'', JArr [JObj [(''title'', JStr ''t'')]])]))"
       and req = "\<lparr>body = JObj [(''options'', JObj [(''page'', JNum 1)])], params_id = JUndefined,
                   user_id = JStr ''u1''\<rparr>"
       and v = "JObj [(''isValid'', JBool True)]"
       and r = "JObj [(''data'', JArr [JObj [(''title'', JStr ''t'')]])]"]
    findAllBlog_list
    [where env = "collaboratorsWith (JObj [(''isValid'', JBool True)])
                    (Inr (JObj [(''data'', JArr [])]))"
       and req = "\<lparr>body = JObj [(''options'', JObj [(''page'', JNum 1)])], params_id = JUndefined,
                   user_id = JStr ''u1''\<rparr>"
       and v = "JObj [(''isValid'', JBool True)]"
       and r = "JObj [(''data'', JArr [])]"]
  by (simp add: collaboratorsWith_def)

section \<open>The path id\<close>

text \<open>
  C7. When \<^verbatim>\<open>ObjectId.isValid\<close> rejects the path id of a \<^verbatim>\<open>getBlog\<close> request, the handler
  answers with the validation error ``invalid objectId.'' and calls nothing else. When
  it accepts the id, the handler fetches the single document with query \<^verbatim>\<open>{ _id: id }\<close>
  and answers record not found if the store returns no document, success with the
  document otherwise. A store operation is invoked only for an accepted id, and it is
  that fetch.
\<close>

theorem getBlog_guard:
  "(env (ObjectIdIsValid (params_id req)) = Inr v \<and> \<not> truthy v \<longrightarrow>
      fst (getBlog env req) =
        [Call (ObjectIdIsValid (params_id req)),
         Respond (ValidationError (Lit ''invalid objectId.''))]) \<and>
   (env (ObjectIdIsValid (params_id req)) = Inr v \<and> truthy v \<and>
    env (GetSingleDocument (JObj [(''_id'', params_id req)]) (JObj [])) = Inr d \<longrightarrow>
      fst (getBlog env req) =
        [Call (ObjectIdIsValid (params_id req)),
         Call (GetSingleDocument (JObj [(''_id'', params_id req)]) (JObj [])),
         Respond (if truthy d then Success d else RecordNotFound)]) \<and>
   (store_calls (fst (getBlog env req)) \<noteq> [] \<longrightarrow>
      (\<exists>w. env (ObjectIdIsValid (params_id req)) = Inr w \<and> truthy w) \<and>
      store_calls (fst (getBlog env req)) =
        [GetSingleDocument (JObj [(''_id'', params_id req)]) (JObj [])])"
  apply (rule ensures_run [where m = "getBlog env req"])
  apply (simp only: getBlog_def Let_def)
  apply (intro vcg; auto simp: typeError_def)
  done

text \<open>
  A rejected id, then an accepted id with no matching document, then an accepted id
  with a document.
\<close>

theorem getBlog_guard_witness:
  "fst (getBlog (answerAll (JBool False))
          \<lparr>body = JUndefined, params_id = JStr ''42'', user_id = JStr ''u1''\<rparr>)
     = [Call (ObjectIdIsValid (JStr ''42'')),
        Respond (ValidationError (Lit ''invalid objectId.''))]
   \<and> fst (getBlog (collaboratorsWith (JBool True) (Inr JNull))
          \<lparr>body = JUndefined, params_id = JStr ''42'', user_id = JStr ''u1''\<rparr>)
     = [Call (ObjectIdIsValid (JStr ''42'')),
        Call (GetSingleDocument (JObj [(''_id'', JStr ''42'')]) (JObj [])),
        Respond RecordNotFound]
   \<and> fst (getBlog (collaboratorsWith (JBool True) (Inr (JObj [(''title'', JStr ''t'')])))
          \<lparr>body = JUndefined, params_id = JStr ''42'', user_id = JStr ''u1''\<rparr>)
     = [Call (ObjectIdIsValid (JStr ''42'')),
        Call (GetSingleDocument (JObj [(''_id'', JStr ''42'')]) (JObj [])),
        Respond (Success (JObj [(''title'', JStr ''t'')]))]"
  using getBlog_guard
    [where env = "answerAll (JBool False)"
       and req = "\<lparr>body = JUndefined, params_id = JStr ''42'', user_id = JStr ''u1''\<rparr>"
       and v = "JBool False", THEN conjunct1]
    getBlog_guard
    [where env = "collaboratorsWith (JBool True) (Inr JNull)"
       and req = "\<lparr>body = JUndefined, params_id = JStr ''42'', user_id = JStr ''u1''\<rparr>"
       and v = "JBool True" and d = JNull, THEN conjunct2, THEN conjunct1]
    getBlog_guard
    [where env = "collaboratorsWith (JBool True) (Inr (JObj [(''title'', JStr ''t'')]))"
       and req = "\<lparr>body = JUndefined, params_id = JStr ''42'', user_id = JStr ''u1''\<rparr>"
       and v = "JBool True" and d = "JObj [(''title'', JStr ''t'')]", THEN conjunct2, THEN conjunct1]
  by (simp add: answerAll_def collaboratorsWith_def)



text \<open>
  C8. When \<^verbatim>\<open>partialUpdateBlog\<close> is called without a path id (a falsy \<^verbatim>\<open>req.params.id\<close>),
  its first action is the bad-request response, and it goes on: with a body present it
  validates the update document (the body without \<^verbatim>\<open>addedBy\<close>, with \<^verbatim>\<open>updatedBy\<close>), and
  when the validation succeeds it invokes the store update with query
  \<^verbatim>\<open>{ _id: req.params.id }\<close>, that is \<^verbatim>\<open>{ _id: undefined }\<close> for a missing id. Unless a
  collaborator throws \<^verbatim>\<open>null\<close> or \<^verbatim>\<open>undefined\<close>, a second response follows in every case,
  so that the run has exactly two responses.
\<close>

theorem partialUpdateBlog_falls_through:
  "\<not> truthy (params_id req) \<longrightarrow>
     (\<exists>rest. fst (partialUpdateBlog env req) = Respond BadRequest # rest) \<and>
     ((\<forall>c. env c \<noteq> Inl JUndefined \<and> env c \<noteq> Inl JNull) \<longrightarrow>
        length (responses (fst (partialUpdateBlog env req))) = 2) \<and>
     (body req \<noteq> JUndefined \<and> body req \<noteq> JNull \<longrightarrow>
        (\<exists>rest. fst (partialUpdateBlog env req) =
           Respond BadRequest #
           Call (ValidateParamsWithJoi
                   (JObj (AList.update ''updatedBy'' (user_id req)
                            (spread (without_prop (body req) ''addedBy''))))
                   UpdateSchemaKeys) # rest)) \<and>
     (body req \<noteq> JUndefined \<and> body req \<noteq> JNull \<and>
      env (ValidateParamsWithJoi
                   (JObj (AList.update ''updatedBy'' (user_id req)
                            (spread (without_prop (body req) ''addedBy''))))
                   UpdateSchemaKeys) = Inr v \<and> truthy (read_prop v ''isValid'') \<longrightarrow>
        (\<exists>rest. fst (partialUpdateBlog env req) =
           Respond BadRequest #
           Call (ValidateParamsWithJoi
                   (JObj (AList.update ''updatedBy'' (user_id req)
                            (spread (without_prop (body req) ''addedBy''))))
                   UpdateSchemaKeys) #
           Call (FindOneAndUpdateDocument (JObj [(''_id'', params_id req)])
                   (JObj (AList.update ''updatedBy'' (user_id req)
                            (spread (without_prop (body req) ''addedBy''))))
                   (JObj [(''new'', JBool True)])) # rest) \<and>
        ((\<forall>c. env c \<noteq> Inl JUndefined \<and> env c \<noteq> Inl JNull) \<longrightarrow>
           (\<exists>r. fst (partialUpdateBlog env req) =
              [Respond BadRequest,
               Call (ValidateParamsWithJoi
                      (JObj (AList.update ''updatedBy'' (user_id req)
                               (spread (without_prop (body req) ''addedBy''))))
                      UpdateSchemaKeys),
               Call (FindOneAndUpdateDocument (JObj [(''_id'', params_id req)])
                      (JObj (AList.update ''updatedBy'' (user_id req)
                               (spread (without_prop (body req) ''addedBy''))))
                      (JObj [(''new'', JBool True)])),
               Respond r])))"
  apply (rule ensures_run [where m = "partialUpdateBlog env req"])
  apply (simp only: partialUpdateBlog_def Let_def)
  apply (intro vcg; auto simp: typeError_def)
  done

text \<open>
  A request without path id whose body passes validation, against a store that finds
  no document: bad request, validation, the update with \<^verbatim>\<open>{ _id: undefined }\<close>, and a
  second response.
\<close>

theorem partialUpdateBlog_falls_through_witness:
  "\<not> truthy JUndefined
   \<and> take 3 (fst (partialUpdateBlog
        (collaboratorsWith (JObj [(''isValid'', JBool True)]) (Inr JNull))
        \<lparr>body = JObj [(''addedBy'', JStr ''mallory''), (''title'', JStr ''t'')],
         params_id = JUndefined, user_id = JStr ''u1''\<rparr>))
     = [Respond BadRequest,
        Call (ValidateParamsWithJoi
                (JObj [(''title'', JStr ''t''), (''updatedBy'', JStr ''u1'')]) UpdateSchemaKeys),
        Call (FindOneAndUpdateDocument (JObj [(''_id'', JUndefined)])
                (JObj [(''title'', JStr ''t''), (''updatedBy'', JStr ''u1'')])
                (JObj [(''new'', JBool True)]))]
   \<and> length (responses (fst (partialUpdateBlog
        (collaboratorsWith (JObj [(''isValid'', JBool True)]) (Inr JNull))
        \<lparr>body = JObj [(''addedBy'', JStr ''mallory''), (''title'', JStr ''t'')],
         params_id = JUndefined, user_id = JStr ''u1''\<rparr>))) = 2"
proof -
  let ?env = "collaboratorsWith (JObj [(''isValid'', JBool True)]) (Inr JNull)"
  let ?req = "\<lparr>body = JObj [(''addedBy'', JStr ''mallory''), (''title'', JStr ''t'')],
               params_id = JUndefined, user_id = JStr ''u1''\<rparr>"
  have no_id: "\<not> truthy (params_id ?req)"
    by simp
  have errors: "\<forall>c. ?env c \<noteq> Inl JUndefined \<and> ?env c \<noteq> Inl JNull"
    by (simp add: collaboratorsWith_def)
  note run = partialUpdateBlog_falls_through
    [where env = ?env and req = ?req and v = "JObj [(''isValid'', JBool True)]", THEN mp, OF no_id]
  have two: "length (responses (fst (partialUpdateBlog ?env ?req))) = 2"
    using run [THEN conjunct2, THEN conjunct1, THEN mp, OF errors] .
  have "\<exists>rest. fst (partialUpdateBlog ?env ?req) =
           Respond BadRequest #
           Call (ValidateParamsWithJoi
                   (JObj [(''title'', JStr ''t''), (''updatedBy'', JStr ''u1'')]) UpdateSchemaKeys) #
           Call (FindOneAndUpdateDocument (JObj [(''_id'', JUndefined)])
                   (JObj [(''title'', JStr ''t''), (''updatedBy'', JStr ''u1'')])
                   (JObj [(''new'', JBool True)])) # rest"
    using run [THEN conjunct2, THEN conjunct2, THEN conjunct2]
    by (simp add: collaboratorsWith_def)
  then obtain rest where "fst (partialUpdateBlog ?env ?req) =
           Respond BadRequest #
           Call (ValidateParamsWithJoi
                   (JObj [(''title'', JStr ''t''), (''updatedBy'', JStr ''u1'')]) UpdateSchemaKeys) #
           Call (FindOneAndUpdateDocument (JObj [(''_id'', JUndefined)])
                   (JObj [(''title'', JStr ''t''), (''updatedBy'', JStr ''u1'')])
                   (JObj [(''new'', JBool True)])) # rest" ..
  then have "take 3 (fst (partialUpdateBlog ?env ?req)) =
          [Respond BadRequest,
           Call (ValidateParamsWithJoi
                   (JObj [(''title'', JStr ''t''), (''updatedBy'', JStr ''u1'')]) UpdateSchemaKeys),
           Call (FindOneAndUpdateDocument (JObj [(''_id'', JUndefined)])
                   (JObj [(''title'', JStr ''t''), (''updatedBy'', JStr ''u1'')])
                   (JObj [(''new'', JBool True)]))]"
    by simp
  with two show ?thesis
    by simp
qed

text \<open>
  C9. \<^verbatim>\<open>updateBlog\<close> does not look at the path id before it acts: for every request its
  first action is the validation of the update document (the body with \<^verbatim>\<open>updatedBy\<close>),
  and when the validation succeeds its second action is the store update with query
  \<^verbatim>\<open>{ _id: req.params.id }\<close>, whatever the id is; unless the store throws \<^verbatim>\<open>null\<close> or
  \<^verbatim>\<open>undefined\<close>, one response follows and that is the whole run. By contrast
  \<^verbatim>\<open>deleteBlog\<close> and \<^verbatim>\<open>softDeleteBlog\<close> answer bad request and do nothing else when the id
  is missing, and \<^verbatim>\<open>getBlog\<close> invokes no store operation when \<^verbatim>\<open>ObjectId.isValid\<close> does
  not accept the id.
\<close>

theorem updateBlog_no_id_check:
  "(\<exists>rest. fst (updateBlog env req) =
      Call (ValidateParamsWithJoi
              (JObj (AList.update ''updatedBy'' (user_id req) (spread (body req))))
              UpdateSchemaKeys) # rest) \<and>
   (env (ValidateParamsWithJoi
              (JObj (AList.update ''updatedBy'' (user_id req) (spread (body req))))
              UpdateSchemaKeys) = Inr v \<and> truthy (read_prop v ''isValid'') \<longrightarrow>
      (\<exists>rest. fst (updateBlog env req) =
         Call (ValidateParamsWithJoi
              (JObj (AList.update ''updatedBy'' (user_id req) (spread (body req))))
              UpdateSchemaKeys) #
         Call (FindOneAndUpdateDocument (JObj [(''_id'', params_id req)])
              (JObj (AList.update ''updatedBy'' (user_id req) (spread (body req))))
              (JObj [(''new'', JBool True)])) # rest) \<and>
      ((\<forall>c. env c \<noteq> Inl JUndefined \<and> env c \<noteq> Inl JNull) \<longrightarrow>
         (\<exists>r. fst (updateBlog env req) =
           [Call (ValidateParamsWithJoi
                 (JObj (AList.update ''updatedBy'' (user_id req) (spread (body req))))
                 UpdateSchemaKeys),
            Call (FindOneAndUpdateDocument (JObj [(''_id'', params_id req)])
                 (JObj (AList.update ''updatedBy'' (user_id req) (spread (body req))))
                 (JObj [(''new'', JBool True)])),
            Respond r]))) \<and>
   (\<not> truthy (params_id req) \<longrightarrow>
      fst (deleteBlog env req) = [Respond BadRequest] \<and>
      fst (softDeleteBlog env req) = [Respond BadRequest]) \<and>
   ((\<forall>w. env (ObjectIdIsValid (params_id req)) = Inr w \<longrightarrow> \<not> truthy w) \<longrightarrow>
      store_calls (fst (getBlog env req)) = [])"
proof -
  let ?payload = "JObj (AList.update ''updatedBy'' (user_id req) (spread (body req)))"
  let ?validate = "ValidateParamsWithJoi ?payload UpdateSchemaKeys"
  let ?update = "FindOneAndUpdateDocument (JObj [(''_id'', params_id req)]) ?payload
                   (JObj [(''new'', JBool True)])"
  let ?P = "\<lambda>m :: unit run. (\<exists>rest. fst m = Call ?validate # rest) \<and>
     (env ?validate = Inr v \<and> truthy (read_prop v ''isValid'') \<longrightarrow>
        (\<exists>rest. fst m = Call ?validate # Call ?update # rest) \<and>
        ((\<forall>c. env c \<noteq> Inl JUndefined \<and> env c \<noteq> Inl JNull) \<longrightarrow>
           (\<exists>r. fst m = [Call ?validate, Call ?update, Respond r])))"
  have upd: "?P (updateBlog env req)"
    apply (rule ensures_run [where m = "updateBlog env req"])
    apply (simp only: updateBlog_def Let_def)
    apply (intro vcg; auto simp: typeError_def)
    done
  have del: "\<not> truthy (params_id req) \<longrightarrow> fst (deleteBlog env req) = [Respond BadRequest]"
    apply (rule ensures_run [where m = "deleteBlog env req"])
    apply (simp only: deleteBlog_def Let_def)
    apply (intro vcg; auto simp: typeError_def)
    done
  have soft: "\<not> truthy (params_id req) \<longrightarrow> fst (softDeleteBlog env req) = [Respond BadRequest]"
    apply (rule ensures_run [where m = "softDeleteBlog env req"])
    apply (simp only: softDeleteBlog_def Let_def)
    apply (intro vcg; auto simp: typeError_def)
    done
  have get: "(\<forall>w. env (ObjectIdIsValid (params_id req)) = Inr w \<longrightarrow> \<not> truthy w) \<longrightarrow>
      store_calls (fst (getBlog env req)) = []"
    apply (rule ensures_run [where m = "getBlog env req"])
    apply (simp only: getBlog_def Let_def)
    apply (intro vcg; auto simp: typeError_def)
    done
  from upd del soft get show ?thesis by blast
qed

text \<open>
  A request without path id and with a valid body: \<^verbatim>\<open>updateBlog\<close> validates and updates
  with \<^verbatim>\<open>{ _id: undefined }\<close>, \<^verbatim>\<open>deleteBlog\<close> and \<^verbatim>\<open>softDeleteBlog\<close> answer bad request, and
  \<^verbatim>\<open>getBlog\<close>, whose id check fails, makes no store call.
\<close>

theorem updateBlog_no_id_check_witness:
  "take 2 (fst (updateBlog (collaboratorsWith (JObj [(''isValid'', JBool True)]) (Inr JNull))
        \<lparr>body = JObj [(''title'', JStr ''t'')], params_id = JUndefined, user_id = JStr ''u1''\<rparr>))
     = [Call (ValidateParamsWithJoi
                (JObj [(''title'', JStr ''t''), (''updatedBy'', JStr ''u1'')]) UpdateSchemaKeys),
        Call (FindOneAndUpdateDocument (JObj [(''_id'', JUndefined)])
                (JObj [(''title'', JStr ''t''), (''updatedBy'', JStr ''u1'')])
                (JObj [(''new'', JBool True)]))]
   \<and> length (fst (updateBlog (collaboratorsWith (JObj [(''isValid'', JBool True)]) (Inr JNull))
        \<lparr>body = JObj [(''title'', JStr ''t'')], params_id = JUndefined, user_id = JStr ''u1''\<rparr>))
     = 3
   \<and> fst (deleteBlog (collaboratorsWith (JObj [(''isValid'', JBool True)]) (Inr JNull))
        \<lparr>body = JObj [(''title'', JStr ''t'')], params_id = JUndefined, user_id = JStr ''u1''\<rparr>)
     = [Respond BadRequest]
   \<and> fst (softDeleteBlog (collaboratorsWith (JObj [(''isValid'', JBool True)]) (Inr JNull))
        \<lparr>body = JObj [(''title'', JStr ''t'')], params_id = JUndefined, user_id = JStr ''u1''\<rparr>)
     = [Respond BadRequest]
   \<and> store_calls (fst (getBlog (answerAll (JBool False))
        \<lparr>body = JObj [(''title'', JStr ''t'')], params_id = JUndefined, user_id = JStr ''u1''\<rparr>))
     = []"
proof -
  let ?env = "collaboratorsWith (JObj [(''isValid'', JBool True)]) (Inr JNull)"
  let ?req = "\<lparr>body = JObj [(''title'', JStr ''t'')], params_id = JUndefined,
               user_id = JStr ''u1''\<rparr>"
  have errors: "\<forall>c. ?env c \<noteq> Inl JUndefined \<and> ?env c \<noteq> Inl JNull"
    by (simp add: collaboratorsWith_def)
  have valid: "?env (ValidateParamsWithJoi
                  (JObj (AList.update ''updatedBy'' (user_id ?req) (spread (body ?req))))
                  UpdateSchemaKeys) = Inr (JObj [(''isValid'', JBool True)])
               \<and> truthy (read_prop (JObj [(''isValid'', JBool True)]) ''isValid'')"
    by (simp add: collaboratorsWith_def)
  note run = updateBlog_no_id_check
    [where env = ?env and req = ?req and v = "JObj [(''isValid'', JBool True)]"]
  have "\<exists>r. fst (updateBlog ?env ?req) =
          [Call (ValidateParamsWithJoi
                   (JObj [(''title'', JStr ''t''), (''updatedBy'', JStr ''u1'')]) UpdateSchemaKeys),
           Call (FindOneAndUpdateDocument (JObj [(''_id'', JUndefined)])
                   (JObj [(''title'', JStr ''t''), (''updatedBy'', JStr ''u1'')])
                   (JObj [(''new'', JBool True)])),
           Respond r]"
    using run [THEN conjunct2, THEN conjunct1, THEN mp, OF valid, THEN conjunct2, THEN mp, OF errors]
    by simp
  then obtain r where "fst (updateBlog ?env ?req) =
          [Call (ValidateParamsWithJoi
                   (JObj [(''title'', JStr ''t''), (''updatedBy'', JStr ''u1'')]) UpdateSchemaKeys),
           Call (FindOneAndUpdateDocument (JObj [(''_id'', JUndefined)])
                   (JObj [(''title'', JStr ''t''), (''updatedBy'', JStr ''u1'')])
                   (JObj [(''new'', JBool True)])),
           Respond r]" ..
  then have upd: "take 2 (fst (updateBlog ?env ?req)) =
          [Call (ValidateParamsWithJoi
                   (JObj [(''title'', JStr ''t''), (''updatedBy'', JStr ''u1'')]) UpdateSchemaKeys),
           Call (FindOneAndUpdateDocument (JObj [(''_id'', JUndefined)])
                   (JObj [(''title'', JStr ''t''), (''updatedBy'', JStr ''u1'')])
                   (JObj [(''new'', JBool True)]))]
          \<and> length (fst (updateBlog ?env ?req)) = 3"
    by simp
  have del: "fst (deleteBlog ?env ?req) = [Respond BadRequest]
             \<and> fst (softDeleteBlog ?env ?req) = [Respond BadRequest]"
    using run [THEN conjunct2, THEN conjunct2, THEN conjunct1]
    by simp
  have get: "store_calls (fst (getBlog (answerAll (JBool False)) ?req)) = []"
    using updateBlog_no_id_check
      [where env = "answerAll (JBool False)" and req = ?req and v = "JBool False",
       THEN conjunct2, THEN conjunct2, THEN conjunct2]
    by (simp add: answerAll_def)
  from upd del get show ?thesis
    by simp
qed

section \<open>The audit fields \<^verbatim>\<open>addedBy\<close> and \<^verbatim>\<open>updatedBy\<close>\<close>

text \<open>
  The names of array elements are digit strings, so neither \<^verbatim>\<open>addedBy\<close> nor \<^verbatim>\<open>updatedBy\<close>
  is among the properties that the spread of an array or a string yields.
\<close>

lemma decimal_digits: "set (decimal n) \<subseteq> set ''0123456789''"
proof (induction n rule: decimal.induct)
  case (1 n)
  have digit: "''0123456789'' ! m \<in> set ''0123456789''" if "m < 10" for m
    by (rule nth_mem) (use that in simp)
  show ?case
  proof (cases "n < 10")
    case True
    then have "decimal n = [''0123456789'' ! n]"
      by (subst decimal.simps) (simp only: if_True)
    moreover have "''0123456789'' ! n \<in> set ''0123456789''"
      using True by (rule digit)
    ultimately show ?thesis
      by (simp only: list.set insert_subset empty_subsetI simp_thms)
  next
    case False
    then have "decimal n = decimal (n div 10) @ [''0123456789'' ! (n mod 10)]"
      by (subst decimal.simps) (simp only: if_False)
    moreover have "''0123456789'' ! (n mod 10) \<in> set ''0123456789''"
      by (rule digit) simp
    moreover have "set (decimal (n div 10)) \<subseteq> set ''0123456789''"
      using False by (rule "1.IH")
    ultimately show ?thesis
      by (simp only: set_append list.set Un_subset_iff insert_subset empty_subsetI simp_thms)
  qed
qed

lemma decimal_not_name:
  assumes "CHR ''d'' \<in> set k"
  shows "k \<notin> set (map decimal ns)"
proof
  assume "k \<in> set (map decimal ns)"
  then obtain n where "k = decimal n"
    by auto
  with assms decimal_digits [of n] have "CHR ''d'' \<in> set ''0123456789''"
    by blast
  then show False
    by simp
qed

lemma map_of_zip_absent: "k \<notin> set ks \<Longrightarrow> map_of (zip ks vs) k = None"
  by (auto simp: map_of_eq_None_iff dest: set_zip_leftD)

lemma map_of_index_keys:
  "CHR ''d'' \<in> set k \<Longrightarrow> map_of (zip (map decimal ns) vs) k = None"
  by (rule map_of_zip_absent) (rule decimal_not_name)


lemma spread_no_name:
  "\<not> is_object v \<Longrightarrow> CHR ''d'' \<in> set k \<Longrightarrow> map_of (spread v) k = None"
  by (cases v) (simp_all add: map_of_index_keys)

lemma spread_without_addedBy: "map_of (spread (without_prop v ''addedBy'')) ''addedBy'' = None"
  by (cases v) (simp_all add: map_of_index_keys AList.delete_conv')

lemma injectAddedBy_sets:
  "item \<in> set (injectAddedBy uid xs) \<Longrightarrow> read_prop item ''addedBy'' = uid"
  by (induction xs) (auto simp: AList.update_conv')

text \<open>
  C1 as stated fails for \<^verbatim>\<open>bulkUpdateBlog\<close>: \<^verbatim>\<open>updatedBy\<close> is added only under the guard
  \<^verbatim>\<open>typeof req.body.data === 'object' && req.body.data !== null\<close>. A bulk update
  without \<^verbatim>\<open>data\<close> reaches the store with an empty update document, so \<^verbatim>\<open>updatedBy\<close> is
  not set on that update.
\<close>

theorem bulkUpdateBlog_without_data_counterexample:
  "store_calls (fst (bulkUpdateBlog (answerAll (JNum 1))
       \<lparr>body = JObj [(''filter'', JObj [(''isActive'', JBool True)])], params_id = JUndefined,
        user_id = JStr ''u1''\<rparr>))
     = [BulkUpdate (JObj [(''isActive'', JBool True)]) (JObj [])]
   \<and> read_prop (JObj []) ''updatedBy'' \<noteq> JStr ''u1''"
  by (simp add: bulkUpdateBlog_def run_defs)

text \<open>
  C1 (amended). \<^verbatim>\<open>addedBy\<close> is set from the authenticated user id on create: \<^verbatim>\<open>addBlog\<close>
  sets it in the object it hands to the \<^verbatim>\<open>Blog\<close> constructor, whose result is the only
  thing it sends to the store, and \<^verbatim>\<open>bulkInsertBlog\<close> sets it in every item it inserts.
  The update documents of \<^verbatim>\<open>bulkUpdateBlog\<close> and \<^verbatim>\<open>partialUpdateBlog\<close> have no \<^verbatim>\<open>addedBy\<close>.
  \<^verbatim>\<open>updatedBy\<close> is set from the authenticated user id in every update document of
  \<^verbatim>\<open>partialUpdateBlog\<close> and \<^verbatim>\<open>updateBlog\<close>, and in that of \<^verbatim>\<open>bulkUpdateBlog\<close> whenever
  \<^verbatim>\<open>req.body.data\<close> is an object; when it is not, the update document of \<^verbatim>\<open>bulkUpdateBlog\<close>
  has no \<^verbatim>\<open>updatedBy\<close> at all. So no update handler forwards an \<^verbatim>\<open>updatedBy\<close> of the client.
\<close>

theorem audit_fields:
  "(\<forall>d. Call (NewBlog d) \<in> set (fst (addBlog env req)) \<longrightarrow>
        read_prop d ''addedBy'' = user_id req) \<and>
   (\<forall>c \<in> set (store_calls (fst (addBlog env req))).
        \<exists>d doc. c = CreateDocument doc \<and> env (NewBlog d) = Inr doc
                 \<and> read_prop d ''addedBy'' = user_id req) \<and>
   (\<forall>c \<in> set (store_calls (fst (bulkInsertBlog env req))).
        \<exists>items. c = BulkInsert (JArr items)
                 \<and> (\<forall>item \<in> set items. read_prop item ''addedBy'' = user_id req)) \<and>
   (\<forall>c \<in> set (store_calls (fst (bulkUpdateBlog env req))).
        \<exists>kvs. update_payload c = Some (JObj kvs) \<and> map_of kvs ''addedBy'' = None
               \<and> map_of kvs ''updatedBy'' =
                   (if is_object (read_prop (body req) ''data'') then Some (user_id req)
                    else None)) \<and>
   (\<forall>c \<in> set (store_calls (fst (partialUpdateBlog env req))).
        \<exists>kvs. update_payload c = Some (JObj kvs) \<and> map_of kvs ''addedBy'' = None
               \<and> map_of kvs ''updatedBy'' = Some (user_id req)) \<and>
   (\<forall>c \<in> set (store_calls (fst (updateBlog env req))).
        \<exists>kvs. update_payload c = Some (JObj kvs)
               \<and> map_of kvs ''updatedBy'' = Some (user_id req))"
proof -
  have add: "(\<forall>d. Call (NewBlog d) \<in> set (fst (addBlog env req)) \<longrightarrow>
        read_prop d ''addedBy'' = user_id req) \<and>
     (\<forall>c \<in> set (store_calls (fst (addBlog env req))).
        \<exists>d doc. c = CreateDocument doc \<and> env (NewBlog d) = Inr doc
                 \<and> read_prop d ''addedBy'' = user_id req)"
    apply (rule ensures_run [where m = "addBlog env req"])
    apply (simp only: addBlog_def Let_def)
    apply (intro vcg; auto simp: typeError_def AList.update_conv')
    done
  have ins: "\<forall>c \<in> set (store_calls (fst (bulkInsertBlog env req))).
        \<exists>items. c = BulkInsert (JArr items)
                 \<and> (\<forall>item \<in> set items. read_prop item ''addedBy'' = user_id req)"
    apply (rule ensures_run [where m = "bulkInsertBlog env req"])
    apply (simp only: bulkInsertBlog_def Let_def)
    apply (intro vcg; auto simp: typeError_def injectAddedBy_sets)
    done
  have bulk: "\<forall>c \<in> set (store_calls (fst (bulkUpdateBlog env req))).
        \<exists>kvs. update_payload c = Some (JObj kvs) \<and> map_of kvs ''addedBy'' = None
               \<and> map_of kvs ''updatedBy'' =
                   (if is_object (read_prop (body req) ''data'') then Some (user_id req)
                    else None)"
    apply (rule ensures_run [where m = "bulkUpdateBlog env req"])
    apply (simp only: bulkUpdateBlog_def Let_def)
    apply (intro vcg; auto simp: typeError_def AList.update_conv' AList.delete_conv' spread_no_name)
    done
  have part: "\<forall>c \<in> set (store_calls (fst (partialUpdateBlog env req))).
        \<exists>kvs. update_payload c = Some (JObj kvs) \<and> map_of kvs ''addedBy'' = None
               \<and> map_of kvs ''updatedBy'' = Some (user_id req)"
    apply (rule ensures_run [where m = "partialUpdateBlog env req"])
    apply (simp only: partialUpdateBlog_def Let_def)
    apply (intro vcg; auto simp: typeError_def AList.update_conv' spread_without_addedBy)
    done
  have upd: "\<forall>c \<in> set (store_calls (fst (updateBlog env req))).
        \<exists>kvs. update_payload c = Some (JObj kvs)
               \<and> map_of kvs ''updatedBy'' = Some (user_id req)"
    apply (rule ensures_run [where m = "updateBlog env req"])
    apply (simp only: updateBlog_def Let_def)
    apply (intro vcg; auto simp: typeError_def AList.update_conv')
    done
  from add ins bulk part upd show ?thesis
    by blast
qed

text \<open>
  A partial update whose body carries both fields, and a bulk update with a data
  object: the store receives the user id as \<^verbatim>\<open>updatedBy\<close> and no \<^verbatim>\<open>addedBy\<close>.
\<close>

theorem audit_fields_witness:
  "store_calls (fst (partialUpdateBlog
       (collaboratorsWith (JObj [(''isValid'', JBool True)]) (Inr JNull))
       \<lparr>body = JObj [(''addedBy'', JStr ''mallory''), (''updatedBy'', JStr ''mallory'')],
        params_id = JStr ''42'', user_id = JStr ''u1''\<rparr>))
     = [FindOneAndUpdateDocument (JObj [(''_id'', JStr ''42'')])
          (JObj [(''updatedBy'', JStr ''u1'')]) (JObj [(''new'', JBool True)])]
   \<and> map_of (spread (JObj [(''updatedBy'', JStr ''u1'')])) ''updatedBy'' = Some (JStr ''u1'')
   \<and> map_of (spread (JObj [(''updatedBy'', JStr ''u1'')])) ''addedBy'' = None"
proof -
  let ?env = "collaboratorsWith (JObj [(''isValid'', JBool True)]) (Inr JNull)"
  let ?req = "\<lparr>body = JObj [(''addedBy'', JStr ''mallory''), (''updatedBy'', JStr ''mallory'')],
               params_id = JStr ''42'', user_id = JStr ''u1''\<rparr>"
  let ?c = "FindOneAndUpdateDocument (JObj [(''_id'', JStr ''42'')])
              (JObj [(''updatedBy'', JStr ''u1'')]) (JObj [(''new'', JBool True)])"
  have calls: "store_calls (fst (partialUpdateBlog ?env ?req)) = [?c]"
    by (simp add: partialUpdateBlog_def run_defs)
  have "\<forall>c \<in> set (store_calls (fst (partialUpdateBlog ?env ?req))).
          \<exists>kvs. update_payload c = Some (JObj kvs) \<and> map_of kvs ''addedBy'' = None
                 \<and> map_of kvs ''updatedBy'' = Some (user_id ?req)"
    using audit_fields [where env = ?env and req = ?req] by blast
  with calls have "\<exists>kvs. update_payload ?c = Some (JObj kvs) \<and> map_of kvs ''addedBy'' = None
                 \<and> map_of kvs ''updatedBy'' = Some (JStr ''u1'')"
    by simp
  with calls show ?thesis
    by simp
qed

text \<open>
  What the amended claim leaves out: \<^verbatim>\<open>updateBlog\<close>, unlike its siblings
  \<^verbatim>\<open>partialUpdateBlog\<close> and \<^verbatim>\<open>bulkUpdateBlog\<close>, has no \<^verbatim>\<open>delete\<close> of \<^verbatim>\<open>addedBy\<close>, and an
  \<^verbatim>\<open>addedBy\<close> of the client reaches the store when the validation lets it pass.
\<close>

lemma updateBlog_keeps_addedBy:
  "store_calls (fst (updateBlog
       (collaboratorsWith (JObj [(''isValid'', JBool True)]) (Inr JNull))
       \<lparr>body = JObj [(''addedBy'', JStr ''mallory'')], params_id = JStr ''42'',
        user_id = JStr ''u1''\<rparr>))
     = [FindOneAndUpdateDocument (JObj [(''_id'', JStr ''42'')])
          (JObj [(''addedBy'', JStr ''mallory''), (''updatedBy'', JStr ''u1'')])
          (JObj [(''new'', JBool True)])]"
  by (simp add: updateBlog_def run_defs)

text \<open>
  Outside the amended claim as well: no create handler touches \<^verbatim>\<open>updatedBy\<close>, so on
  create an \<^verbatim>\<open>updatedBy\<close> of the client stays in the object given to the constructor.
\<close>

lemma addBlog_keeps_updatedBy:
  "take 2 (fst (addBlog
       (collaboratorsWith (JObj [(''isValid'', JBool True)]) (Inr JNull))
       \<lparr>body = JObj [(''updatedBy'', JStr ''mallory'')], params_id = JUndefined,
        user_id = JStr ''u1''\<rparr>))
     = [Call (ValidateParamsWithJoi (JObj [(''updatedBy'', JStr ''mallory'')]) SchemaKeys),
        Call (NewBlog (JObj [(''updatedBy'', JStr ''mallory''), (''addedBy'', JStr ''u1'')]))]"
  by (simp add: addBlog_def run_defs)

section \<open>Soft delete\<close>

lemma set_fields_frame:
  "k \<notin> fst ` set payload \<Longrightarrow> map_of (set_fields payload d) k = map_of d k"
  unfolding set_fields_def
  by (induction payload arbitrary: d) (auto simp: AList.update_conv')

lemma set_fields_soft_delete:
  "k \<noteq> ''isDeleted'' \<Longrightarrow> k \<noteq> ''updatedBy'' \<Longrightarrow>
   map_of (set_fields [(''isDeleted'', JBool True), (''updatedBy'', uid)] d) k = map_of d k"
  by (rule set_fields_frame) simp

lemma length_update_first: "length (update_first p f ds) = length ds"
  by (induction ds) simp_all

lemma nth_update_first:
  "i < length ds \<Longrightarrow> (\<And>d. map_of (f d) k = map_of d k) \<Longrightarrow>
   map_of (update_first p f ds ! i) k = map_of (ds ! i) k"
proof (induction ds arbitrary: i)
  case Nil
  then show ?case by simp
next
  case (Cons d ds)
  then show ?case
    by (cases i) simp_all
qed

lemma softDeleteBlog_calls:
  "store_calls (fst (softDeleteBlog env req)) =
     (if truthy (params_id req)
      then [FindOneAndUpdateDocument (JObj [(''_id'', params_id req)])
              (JObj [(''isDeleted'', JBool True), (''updatedBy'', user_id req)])
              (JObj [(''new'', JBool True)])]
      else [])"
  apply (rule ensures_run [where m = "softDeleteBlog env req"])
  apply (simp only: softDeleteBlog_def Let_def)
  apply (intro vcg; simp)
  done

lemma softDeleteManyBlog_calls:
  "store_calls (fst (softDeleteManyBlog env req)) =
     (if nonEmptyArray (read_prop (body req) ''ids'')
      then [BulkUpdate (JObj [(''_id'', JObj [(''$in'', read_prop (body req) ''ids'')])])
              (JObj [(''isDeleted'', JBool True), (''updatedBy'', user_id req)])]
      else [])"
  apply (rule ensures_run [where m = "softDeleteManyBlog env req"])
  apply (simp only: softDeleteManyBlog_def Let_def bad_list_iff)
  apply (intro vcg; auto simp: typeError_def)
  done

lemma no_delete_calls:
  "h \<noteq> DeleteBlog \<and> h \<noteq> DeleteManyBlog \<longrightarrow>
     (\<forall>c \<in> set (store_calls (fst (exports h env req))). \<not> is_delete_call c)"
  apply (rule ensures_run [where m = "exports h env req"])
  apply (cases h; simp only: exports.simps handler_defs Let_def)
             apply (intro vcg; simp)+
  done

text \<open>
  C5. \<^verbatim>\<open>softDeleteBlog\<close> and \<^verbatim>\<open>softDeleteManyBlog\<close> invoke at most one store operation, the
  update (\<^verbatim>\<open>findOneAndUpdateDocument\<close>, \<^verbatim>\<open>bulkUpdate\<close>) whose update document is exactly
  \<^verbatim>\<open>{ isDeleted: true, updatedBy: req.user.id }\<close>, and never a delete. On the collection
  such an update keeps every document in place and leaves every field other than
  \<^verbatim>\<open>isDeleted\<close> and \<^verbatim>\<open>updatedBy\<close> as it was, whatever the query matches. Of the twelve
  handlers only \<^verbatim>\<open>deleteBlog\<close> and \<^verbatim>\<open>deleteManyBlog\<close> ever invoke a delete operation of the
  store.
\<close>

theorem soft_delete_frame:
  "store_calls (fst (softDeleteBlog env req)) =
     (if truthy (params_id req)
      then [FindOneAndUpdateDocument (JObj [(''_id'', params_id req)])
              (JObj [(''isDeleted'', JBool True), (''updatedBy'', user_id req)])
              (JObj [(''new'', JBool True)])]
      else []) \<and>
   store_calls (fst (softDeleteManyBlog env req)) =
     (if nonEmptyArray (read_prop (body req) ''ids'')
      then [BulkUpdate (JObj [(''_id'', JObj [(''$in'', read_prop (body req) ''ids'')])])
              (JObj [(''isDeleted'', JBool True), (''updatedBy'', user_id req)])]
      else []) \<and>
   (h = SoftDeleteBlog \<or> h = SoftDeleteManyBlog \<longrightarrow>
      length (apply_updates matches (store_calls (fst (exports h env req))) coll) = length coll \<and>
      (\<forall>i k. i < length coll \<and> k \<noteq> ''isDeleted'' \<and> k \<noteq> ''updatedBy'' \<longrightarrow>
         map_of (apply_updates matches (store_calls (fst (exports h env req))) coll ! i) k
           = map_of (coll ! i) k)) \<and>
   (h \<noteq> DeleteBlog \<and> h \<noteq> DeleteManyBlog \<longrightarrow>
      (\<forall>c \<in> set (store_calls (fst (exports h env req))). \<not> is_delete_call c))"
proof -
  have one: "length (apply_updates matches (store_calls (fst (softDeleteBlog env req))) coll)
               = length coll \<and>
      (\<forall>i k. i < length coll \<and> k \<noteq> ''isDeleted'' \<and> k \<noteq> ''updatedBy'' \<longrightarrow>
         map_of (apply_updates matches (store_calls (fst (softDeleteBlog env req))) coll ! i) k
           = map_of (coll ! i) k)"
    by (simp add: softDeleteBlog_calls length_update_first nth_update_first
          set_fields_soft_delete)
  have many: "length (apply_updates matches (store_calls (fst (softDeleteManyBlog env req))) coll)
               = length coll \<and>
      (\<forall>i k. i < length coll \<and> k \<noteq> ''isDeleted'' \<and> k \<noteq> ''updatedBy'' \<longrightarrow>
         map_of (apply_updates matches (store_calls (fst (softDeleteManyBlog env req))) coll ! i) k
           = map_of (coll ! i) k)"
    by (simp add: softDeleteManyBlog_calls set_fields_soft_delete)
  from one many have frame: "h = SoftDeleteBlog \<or> h = SoftDeleteManyBlog \<longrightarrow>
      length (apply_updates matches (store_calls (fst (exports h env req))) coll) = length coll \<and>
      (\<forall>i k. i < length coll \<and> k \<noteq> ''isDeleted'' \<and> k \<noteq> ''updatedBy'' \<longrightarrow>
         map_of (apply_updates matches (store_calls (fst (exports h env req))) coll ! i) k
           = map_of (coll ! i) k)"
    by auto
  show ?thesis
    using softDeleteBlog_calls [of env req] softDeleteManyBlog_calls [of env req] frame
      no_delete_calls [of h env req]
    by blast
qed

text \<open>
  The soft delete of document 42 in a collection of two: the run makes the one update,
  both documents are still there, the title of the first is what it was, and the
  collection after the update is the old one with the two fields set on document 42.
\<close>

theorem soft_delete_frame_witness:
  "store_calls (fst (softDeleteBlog (answerAll (JNum 1))
       \<lparr>body = JUndefined, params_id = JStr ''42'', user_id = JStr ''u1''\<rparr>))
     = [FindOneAndUpdateDocument (JObj [(''_id'', JStr ''42'')])
          (JObj [(''isDeleted'', JBool True), (''updatedBy'', JStr ''u1'')])
          (JObj [(''new'', JBool True)])]
   \<and> length (apply_updates matchesId
        (store_calls (fst (exports SoftDeleteBlog (answerAll (JNum 1))
           \<lparr>body = JUndefined, params_id = JStr ''42'', user_id = JStr ''u1''\<rparr>)))
        [[(''_id'', JStr ''42''), (''title'', JStr ''a''), (''isDeleted'', JBool False)],
         [(''_id'', JStr ''43''), (''title'', JStr ''b'')]]) = 2
   \<and> map_of (apply_updates matchesId
        (store_calls (fst (exports SoftDeleteBlog (answerAll (JNum 1))
           \<lparr>body = JUndefined, params_id = JStr ''42'', user_id = JStr ''u1''\<rparr>)))
        [[(''_id'', JStr ''42''), (''title'', JStr ''a''), (''isDeleted'', JBool False)],
         [(''_id'', JStr ''43''), (''title'', JStr ''b'')]] ! 0) ''title'' = Some (JStr ''a'')
   \<and> apply_updates matchesId
        [FindOneAndUpdateDocument (JObj [(''_id'', JStr ''42'')])
          (JObj [(''isDeleted'', JBool True), (''updatedBy'', JStr ''u1'')])
          (JObj [(''new'', JBool True)])]
        [[(''_id'', JStr ''42''), (''title'', JStr ''a''), (''isDeleted'', JBool False)],
         [(''_id'', JStr ''43''), (''title'', JStr ''b'')]]
     = [[(''_id'', JStr ''42''), (''title'', JStr ''a''), (''isDeleted'', JBool True),
         (''updatedBy'', JStr ''u1'')],
        [(''_id'', JStr ''43''), (''title'', JStr ''b'')]]"
proof -
  let ?env = "answerAll (JNum 1)"
  let ?req = "\<lparr>body = JUndefined, params_id = JStr ''42'', user_id = JStr ''u1''\<rparr>"
  let ?coll = "[[(''_id'', JStr ''42''), (''title'', JStr ''a''), (''isDeleted'', JBool False)],
                [(''_id'', JStr ''43''), (''title'', JStr ''b'')]]"
  note frame = soft_delete_frame
    [where env = ?env and req = ?req and h = SoftDeleteBlog and matches = matchesId
       and coll = ?coll]
  have calls: "store_calls (fst (softDeleteBlog ?env ?req))
     = [FindOneAndUpdateDocument (JObj [(''_id'', JStr ''42'')])
          (JObj [(''isDeleted'', JBool True), (''updatedBy'', JStr ''u1'')])
          (JObj [(''new'', JBool True)])]"
    using frame [THEN conjunct1] by simp
  note on_coll = frame [THEN conjunct2, THEN conjunct2, THEN conjunct1, THEN mp,
                         OF disjI1 [OF refl]]
  have kept: "length (apply_updates matchesId
                 (store_calls (fst (exports SoftDeleteBlog ?env ?req))) ?coll) = 2"
    using on_coll [THEN conjunct1] by simp
  have title: "map_of (apply_updates matchesId
                    (store_calls (fst (exports SoftDeleteBlog ?env ?req))) ?coll ! 0) ''title''
            = Some (JStr ''a'')"
    using on_coll [THEN conjunct2, THEN spec, THEN spec, of 0 "''title''"] by simp
  have after: "apply_updates matchesId
        [FindOneAndUpdateDocument (JObj [(''_id'', JStr ''42'')])
          (JObj [(''isDeleted'', JBool True), (''updatedBy'', JStr ''u1'')])
          (JObj [(''new'', JBool True)])] ?coll
     = [[(''_id'', JStr ''42''), (''title'', JStr ''a''), (''isDeleted'', JBool True),
         (''updatedBy'', JStr ''u1'')],
        [(''_id'', JStr ''43''), (''title'', JStr ''b'')]]"
    by (simp add: matchesId_def set_fields_def)
  from calls kept title after show ?thesis
    by simp
qed

end
